theory Spec2Isabelle
  imports Complex_Main "HOL-Library.Char_ord" "HOL-Library.List_Lexorder"
begin

section \<open>Python strings\<close>

text \<open>
  Query texts, table names and column names are Python \<open>str\<close> values. They are modelled
  as HOL strings restricted to ASCII text, which is what SQL statements and warehouse
  identifiers are made of: \<open>upper\<close> maps the letters \<open>a\<close>..\<open>z\<close> and leaves every other
  character alone, \<open>isspace\<close> holds for the ASCII characters Python's \<open>str.strip()\<close>
  removes, and \<open>is_word\<close> is the class \<open>\w\<close> of the \<open>re\<close> module on ASCII text.
\<close>

definition ascii_lowercase :: string where
  "ascii_lowercase = ''abcdefghijklmnopqrstuvwxyz''"

definition ascii_uppercase :: string where
  "ascii_uppercase = ''ABCDEFGHIJKLMNOPQRSTUVWXYZ''"

definition digits :: string where
  "digits = ''0123456789''"

definition whitespace :: string where
  "whitespace = [CHR 0x09, CHR 0x0A, CHR 0x0B, CHR 0x0C, CHR 0x0D,
                 CHR 0x1C, CHR 0x1D, CHR 0x1E, CHR 0x1F, CHR '' '']"

definition upper_char :: "char \<Rightarrow> char" where
  "upper_char c =
     (case map_of (zip ascii_lowercase ascii_uppercase) c of Some u \<Rightarrow> u | None \<Rightarrow> c)"

definition lower_char :: "char \<Rightarrow> char" where
  "lower_char c =
     (case map_of (zip ascii_uppercase ascii_lowercase) c of Some l \<Rightarrow> l | None \<Rightarrow> c)"

definition upper :: "string \<Rightarrow> string" where
  "upper s = map upper_char s"

definition lower :: "string \<Rightarrow> string" where
  "lower s = map lower_char s"

definition isspace :: "char \<Rightarrow> bool" where
  "isspace c = (c \<in> set whitespace)"


text \<open>\<open>s.strip()\<close>: leading and trailing whitespace removed.\<close>

definition strip :: "string \<Rightarrow> string" where
  "strip s = rev (dropWhile isspace (rev (dropWhile isspace s)))"


definition endswith :: "string \<Rightarrow> string \<Rightarrow> bool" where
  "endswith s p = (length p \<le> length s \<and> drop (length s - length p) s = p)"

text \<open>\<open>p in s\<close> on strings: \<open>p\<close> occurs in \<open>s\<close> as a contiguous substring.\<close>

fun contains :: "string \<Rightarrow> string \<Rightarrow> bool" where
  "contains [] p = (p = [])"
| "contains (c # cs) p = (take (length p) (c # cs) = p \<or> contains cs p)"

section \<open>Query safety validator\<close>











section \<open>Values of the Python program\<close>

text \<open>
  A Python \<open>dict\<close> keeps its keys in insertion order. \<open>d[k] = v\<close> replaces the value of
  a key already present where it stands and appends a new key at the end; \<open>d.get(k)\<close>
  and \<open>k in d\<close> read it.
\<close>

type_synonym ('k, 'v) dict = "('k \<times> 'v) list"

primrec dict_set :: "'k \<Rightarrow> 'v \<Rightarrow> ('k, 'v) dict \<Rightarrow> ('k, 'v) dict" where
  "dict_set k v [] = [(k, v)]"
| "dict_set k v (p # ps) = (if fst p = k then (k, v) # ps else p # dict_set k v ps)"

definition dict_get :: "('k, 'v) dict \<Rightarrow> 'k \<Rightarrow> 'v option" where
  "dict_get d k = map_of d k"

definition dict_keys :: "('k, 'v) dict \<Rightarrow> 'k list" where
  "dict_keys d = map fst d"

text \<open>\<open>str(n)\<close> for an integer: its decimal digits, with a sign when negative.\<close>

definition digit_char :: "nat \<Rightarrow> char" where
  "digit_char d = digits ! d"

fun str_nat :: "nat \<Rightarrow> string" where
  "str_nat n = (if n < 10 then [digit_char n] else str_nat (n div 10) @ [digit_char (n mod 10)])"

definition str_int :: "int \<Rightarrow> string" where
  "str_int i = (if i < 0 then ''-'' @ str_nat (nat (- i)) else str_nat (nat i))"

text \<open>
  A pandas \<open>DataFrame\<close>: named columns in order, each of one dtype. A column of dtype
  \<open>object\<close> holds texts, \<open>None\<close> standing for a missing value; a numeric column holds
  numbers, taken as exact rationals. The length of a frame is its number of rows.
\<close>

datatype column = ObjectCol "string option list" | NumberCol "rat list"

type_synonym dataframe = "(string \<times> column) list"

fun column_len :: "column \<Rightarrow> nat" where
  "column_len (ObjectCol xs) = length xs"
| "column_len (NumberCol xs) = length xs"

fun len :: "dataframe \<Rightarrow> nat" where
  "len [] = 0"
| "len ((name, c) # cols) = column_len c"

definition df_columns :: "dataframe \<Rightarrow> string list" where
  "df_columns df = map fst df"

section \<open>Metadata cache and connection gateway\<close>

text \<open>
  The warehouse sits behind \<open>connection.cursor()\<close>. What it answers is an input of the
  model: for a statement text, either the exception the connector raises or the rows it
  returns. A \<open>DESCRIBE TABLE\<close> statement answers with one row per column of the table
  (fields \<open>name\<close>, \<open>type\<close>, \<open>null?\<close>, \<open>default\<close>); any other statement answers with a
  frame. No caller in the repository passes \<open>params\<close>, so a statement is its text.
\<close>

datatype error = WarehouseError string | JSONDecodeError string | OtherError string


record describe_row =
  r_name :: string
  r_type :: string
  r_null :: string
  r_default :: "string option"

record warehouse =
  describe :: "string \<Rightarrow> error + describe_row list"
  fetch :: "string \<Rightarrow> error + dataframe"

record connection_params =
  database :: string
  schema_name :: string

text \<open>Column metadata: \<open>{'type': ..., 'nullable': ..., 'default': ...}\<close>.\<close>

record col_info =
  ctype :: string
  nullable :: bool
  default :: "string option"

type_synonym table_schema = "(string, col_info) dict"

text \<open>
  The cached state of \<open>SimpleSnowflakeConnection\<close>: \<open>_schema_cache\<close>,
  \<open>_table_list_cache\<close> and \<open>_cache_timestamp\<close>, with \<open>_cache_ttl = 3600\<close>. Clock
  readings (\<open>time.time()\<close>) are inputs, in seconds; only their order and differences
  matter, so they are integers here.
\<close>

record cache =
  schema_cache :: "(string, table_schema) dict"
  table_list_cache :: "string list option"
  cache_timestamp :: int

definition cache_ttl :: int where
  "cache_ttl = 3600"

definition initial_cache :: cache where
  "initial_cache = \<lparr>schema_cache = [], table_list_cache = None, cache_timestamp = 0\<rparr>"

definition is_cache_valid :: "int \<Rightarrow> cache \<Rightarrow> bool" where
  "is_cache_valid now c = (now - cache_timestamp c < cache_ttl)"

definition invalidate_cache :: "cache \<Rightarrow> cache" where
  "invalidate_cache c = \<lparr>schema_cache = [], table_list_cache = None, cache_timestamp = 0\<rparr>"

definition update_cache_timestamp :: "int \<Rightarrow> cache \<Rightarrow> cache" where
  "update_cache_timestamp now c = c\<lparr>cache_timestamp := now\<rparr>"

text \<open>
  \<open>execute_query\<close>: the statement handed to the cursor, then the cursor's answer. An
  exception of the cursor is raised again to the caller.
\<close>

definition add_limit :: "string \<Rightarrow> string" where
  "add_limit query =
     (let query_upper = strip (upper query) in
      if \<not> contains query_upper ''LIMIT'' then
        (if endswith (strip query) '';'' then butlast (strip query) @ '' LIMIT 200;''
         else query @ '' LIMIT 200'')
      else query)"

definition execute_query :: "warehouse \<Rightarrow> string \<Rightarrow> error + dataframe" where
  "execute_query wh query =
     (case fetch wh (add_limit query) of Inl e \<Rightarrow> Inl e | Inr df \<Rightarrow> Inr df)"

text \<open>\<open>{database}.{schema}.{table}\<close>, as the statements of the gateway name a table.\<close>

definition qualified_name :: "connection_params \<Rightarrow> string \<Rightarrow> string" where
  "qualified_name cp table_name = database cp @ ''.'' @ schema_name cp @ ''.'' @ table_name"

definition allowed_tables :: "string list" where
  "allowed_tables =
     [''RPT_WOPS_AGENT_PERFORMANCE'', ''ZENDESK_TICKET_AGENT__HANDLE_TIME'',
      ''RPT_WOPS_TICKETS'', ''RPT_WOPS_TL_PERFORMANCE'', ''RPT_AGENT_SCHEDULE_ADHERENCE'']"

definition probe_query :: "connection_params \<Rightarrow> string \<Rightarrow> string" where
  "probe_query cp table_name = ''SELECT 1 FROM '' @ qualified_name cp table_name @ '' LIMIT 1''"

text \<open>
  The verification loop of \<open>get_available_tables\<close>: a table whose probe raises is
  logged and left out, and the loop goes on.
\<close>

fun existing_tables :: "warehouse \<Rightarrow> connection_params \<Rightarrow> string list \<Rightarrow> string list" where
  "existing_tables wh cp [] = []"
| "existing_tables wh cp (table_name # tables) =
     (case execute_query wh (probe_query cp table_name) of
        Inl e \<Rightarrow> existing_tables wh cp tables
      | Inr df \<Rightarrow> table_name # existing_tables wh cp tables)"

text \<open>
  The body of the outer \<open>try\<close> of \<open>get_available_tables\<close>: verify, cache, stamp, return.
  Every exception of a probe is handled inside the loop, so this body has no raising
  step of its own.
\<close>

definition fetch_table_list ::
  "warehouse \<Rightarrow> connection_params \<Rightarrow> int \<Rightarrow> cache \<Rightarrow> error + (string list \<times> cache)" where
  "fetch_table_list wh cp now_fill c =
     (let existing = existing_tables wh cp allowed_tables in
      Inr (existing,
           update_cache_timestamp now_fill (c\<lparr>table_list_cache := Some existing\<rparr>)))"

text \<open>
  \<open>get_available_tables\<close>. \<open>now_check\<close> is the clock read by \<open>_is_cache_valid\<close>,
  \<open>now_fill\<close> the clock read when the cache is stamped. The handler of the outer \<open>try\<close>
  returns the fixed list unverified.
\<close>

definition get_available_tables ::
  "warehouse \<Rightarrow> connection_params \<Rightarrow> int \<Rightarrow> int \<Rightarrow> cache \<Rightarrow> string list \<times> cache" where
  "get_available_tables wh cp now_check now_fill c =
     (if table_list_cache c \<noteq> None \<and> is_cache_valid now_check c
      then (the (table_list_cache c), c)
      else (case fetch_table_list wh cp now_fill c of
              Inr r \<Rightarrow> r
            | Inl e \<Rightarrow> (allowed_tables, c)))"

text \<open>The schema built from the rows of \<open>DESCRIBE TABLE\<close>, row by row.\<close>

definition schema_of_rows :: "describe_row list \<Rightarrow> table_schema" where
  "schema_of_rows rows =
     foldl (\<lambda>schema row.
              dict_set (r_name row)
                \<lparr>ctype = r_type row, nullable = (r_null row = ''Y''), default = r_default row\<rparr>
                schema)
       [] rows"

text \<open>The schema made up from the column names of a one-row sample.\<close>

definition schema_of_columns :: "string list \<Rightarrow> table_schema" where
  "schema_of_columns cols =
     foldl (\<lambda>schema col.
              dict_set col \<lparr>ctype = ''VARCHAR'', nullable = True, default = None\<rparr> schema)
       [] cols"

definition describe_query :: "connection_params \<Rightarrow> string \<Rightarrow> string" where
  "describe_query cp table_name = ''DESCRIBE TABLE '' @ qualified_name cp table_name"

definition one_row_query :: "connection_params \<Rightarrow> string \<Rightarrow> string" where
  "one_row_query cp table_name =
     ''SELECT * FROM '' @ qualified_name cp table_name @ '' LIMIT 1''"

text \<open>
  The two \<open>try\<close> bodies of \<open>get_table_schema\<close>. Both run their statement on the cursor
  directly, build the schema, store it under the table's name and stamp the cache.
\<close>

definition describe_and_cache ::
  "warehouse \<Rightarrow> connection_params \<Rightarrow> int \<Rightarrow> string \<Rightarrow> cache \<Rightarrow> error + (table_schema \<times> cache)"
  where
  "describe_and_cache wh cp now_fill table_name c =
     (case describe wh (describe_query cp table_name) of
        Inl e \<Rightarrow> Inl e
      | Inr rows \<Rightarrow>
          (let schema = schema_of_rows rows in
           Inr (schema,
                update_cache_timestamp now_fill
                  (c\<lparr>schema_cache := dict_set table_name schema (schema_cache c)\<rparr>))))"

definition sample_and_cache ::
  "warehouse \<Rightarrow> connection_params \<Rightarrow> int \<Rightarrow> string \<Rightarrow> cache \<Rightarrow> error + (table_schema \<times> cache)"
  where
  "sample_and_cache wh cp now_fill table_name c =
     (case fetch wh (one_row_query cp table_name) of
        Inl e \<Rightarrow> Inl e
      | Inr df \<Rightarrow>
          (let schema = schema_of_columns (df_columns df) in
           Inr (schema,
                update_cache_timestamp now_fill
                  (c\<lparr>schema_cache := dict_set table_name schema (schema_cache c)\<rparr>))))"

text \<open>
  The part of \<open>get_table_schema\<close> after the cache check: the \<open>DESCRIBE\<close> attempt,
  its handler with the one-row sample, and the handler of that, which returns an empty
  schema. The result is typed as that of a function that could raise: \<open>Inl\<close> would be an
  exception reaching the caller.
\<close>

definition introspect ::
  "warehouse \<Rightarrow> connection_params \<Rightarrow> int \<Rightarrow> string \<Rightarrow> cache \<Rightarrow> error + (table_schema \<times> cache)"
  where
  "introspect wh cp now_fill table_name c =
     (case describe_and_cache wh cp now_fill table_name c of
        Inr r \<Rightarrow> Inr r
      | Inl e \<Rightarrow>
          (case sample_and_cache wh cp now_fill table_name c of
             Inr r \<Rightarrow> Inr r
           | Inl e2 \<Rightarrow> Inr ([], c)))"

definition get_table_schema ::
  "warehouse \<Rightarrow> connection_params \<Rightarrow> int \<Rightarrow> int \<Rightarrow> string \<Rightarrow> cache
     \<Rightarrow> error + (table_schema \<times> cache)" where
  "get_table_schema wh cp now_check now_fill table_name c =
     (if dict_get (schema_cache c) table_name \<noteq> None \<and> is_cache_valid now_check c
      then Inr (the (dict_get (schema_cache c) table_name), c)
      else introspect wh cp now_fill table_name c)"

section \<open>Ordered sampler\<close>

definition empty_frame :: dataframe where
  "empty_frame = []"

definition sample_query :: "connection_params \<Rightarrow> string \<Rightarrow> int \<Rightarrow> string" where
  "sample_query cp table_name limit =
     ''SELECT * FROM '' @ qualified_name cp table_name @ '' LIMIT '' @ str_int limit"

text \<open>\<open>get_table_sample\<close>: a failed execution gives an empty frame.\<close>

definition get_table_sample ::
  "warehouse \<Rightarrow> connection_params \<Rightarrow> string \<Rightarrow> int \<Rightarrow> dataframe" where
  "get_table_sample wh cp table_name limit =
     (case execute_query wh (sample_query cp table_name limit) of
        Inr df \<Rightarrow> df
      | Inl e \<Rightarrow> empty_frame)"

definition audit_patterns :: "string list" where
  "audit_patterns =
     [''CREATED_AT'', ''UPDATED_AT'', ''CREATED_DATE'', ''UPDATED_DATE'',
      ''TIMESTAMP'', ''DATE_CREATED'', ''DATE_UPDATED'', ''AUDIT_DATE'',
      ''CREATED_TIME'', ''UPDATED_TIME'', ''LAST_MODIFIED'', ''RECORD_DATE'',
      ''ETL_TIMESTAMP'', ''LOAD_DATE'', ''SOLVED_WEEK'', ''ADHERENCE_DATE'']"

definition date_types :: "string list" where
  "date_types = [''DATE'', ''TIMESTAMP'', ''TIME'']"

text \<open>The truth value Python gives \<open>order_column\<close>: \<open>None\<close> and the empty name are false.\<close>

fun truthy :: "string option \<Rightarrow> bool" where
  "truthy None = False"
| "truthy (Some name) = (name \<noteq> [])"

text \<open>The inner loop: the first column whose uppercased name contains the pattern.\<close>

fun first_column_with :: "string \<Rightarrow> string list \<Rightarrow> string option" where
  "first_column_with pattern [] = None"
| "first_column_with pattern (col_name # cols) =
     (if contains (upper col_name) pattern then Some col_name
      else first_column_with pattern cols)"

text \<open>
  The outer loop over the patterns, carrying \<open>order_column\<close>; it is left as soon as
  \<open>order_column\<close> is true.
\<close>

fun audit_loop :: "string list \<Rightarrow> string list \<Rightarrow> string option \<Rightarrow> string option" where
  "audit_loop [] cols order_column = order_column"
| "audit_loop (pattern # patterns) cols order_column =
     (let found = (case first_column_with pattern cols of
                     Some col_name \<Rightarrow> Some col_name
                   | None \<Rightarrow> order_column)
      in if truthy found then found else audit_loop patterns cols found)"

definition has_date_type :: "col_info \<Rightarrow> bool" where
  "has_date_type info = list_ex (\<lambda>date_type. contains (upper (ctype info)) date_type) date_types"

text \<open>The second loop: the first column whose declared type names a date or a time.\<close>

fun first_date_column :: "table_schema \<Rightarrow> string option" where
  "first_date_column [] = None"
| "first_date_column ((col_name, info) # items) =
     (if has_date_type info then Some col_name else first_date_column items)"

text \<open>The value of \<open>order_column\<close> when the statement is built.\<close>

definition pick_order_column :: "table_schema \<Rightarrow> string option" where
  "pick_order_column schema =
     (let order_column = audit_loop audit_patterns (dict_keys schema) None in
      if \<not> truthy order_column then
        (case first_date_column schema of
           Some col_name \<Rightarrow> Some col_name
         | None \<Rightarrow> order_column)
      else order_column)"

definition indent :: string where
  "indent = replicate 16 (CHR '' '')"

definition ordered_query :: "connection_params \<Rightarrow> string \<Rightarrow> string \<Rightarrow> int \<Rightarrow> string" where
  "ordered_query cp table_name order_column limit =
     [CHR 0x0A] @ indent @ ''SELECT * FROM '' @ qualified_name cp table_name @ '' ''
     @ [CHR 0x0A] @ indent @ ''ORDER BY '' @ order_column @ '' DESC ''
     @ [CHR 0x0A] @ indent @ ''LIMIT '' @ str_int limit
     @ [CHR 0x0A] @ indent"

text \<open>The statement \<open>get_table_sample_ordered\<close> hands to \<open>execute_query\<close>.\<close>

definition sample_statement ::
  "connection_params \<Rightarrow> string \<Rightarrow> int \<Rightarrow> table_schema \<Rightarrow> string" where
  "sample_statement cp table_name limit schema =
     (let order_column = pick_order_column schema in
      if truthy order_column then ordered_query cp table_name (the order_column) limit
      else sample_query cp table_name limit)"

text \<open>
  \<open>get_table_sample_ordered\<close>: any exception of the body falls back to the plain
  sample. The cache keeps what \<open>get_table_schema\<close> stored.
\<close>

definition get_table_sample_ordered ::
  "warehouse \<Rightarrow> connection_params \<Rightarrow> int \<Rightarrow> int \<Rightarrow> string \<Rightarrow> int \<Rightarrow> cache
     \<Rightarrow> dataframe \<times> cache" where
  "get_table_sample_ordered wh cp now_check now_fill table_name limit c =
     (case get_table_schema wh cp now_check now_fill table_name c of
        Inl e \<Rightarrow> (get_table_sample wh cp table_name limit, c)
      | Inr (schema, c') \<Rightarrow>
          (case execute_query wh (sample_statement cp table_name limit schema) of
             Inr df \<Rightarrow> (df, c')
           | Inl e \<Rightarrow> (get_table_sample wh cp table_name limit, c')))"

text \<open>
  The words of the specification: \<open>x\<close> is the first element of \<open>xs\<close>, in order, with the
  property \<open>P\<close>.
\<close>

definition first_such :: "('a \<Rightarrow> bool) \<Rightarrow> 'a list \<Rightarrow> 'a \<Rightarrow> bool" where
  "first_such P xs x = (\<exists>before after. xs = before @ x # after \<and> P x \<and> (\<forall>y\<in>set before. \<not> P y))"

text \<open>A column name matches a pattern when its uppercased text contains the pattern.\<close>

definition name_matches :: "string \<Rightarrow> string \<Rightarrow> bool" where
  "name_matches pattern col_name = contains (upper col_name) pattern"

section \<open>Scenarios\<close>

text \<open>A warehouse that cannot be reached: every statement raises.\<close>

definition unreachable_warehouse :: warehouse where
  "unreachable_warehouse =
     \<lparr>describe = (\<lambda>statement. Inl (WarehouseError ''connection lost'')),
      fetch = (\<lambda>statement. Inl (WarehouseError ''connection lost''))\<rparr>"

text \<open>A warehouse whose table \<open>T\<close> holds a thousand rows.\<close>

definition thousand_rows :: dataframe where
  "thousand_rows = [(''RATE_LIMIT'', NumberCol (replicate 1000 1))]"

definition big_table_warehouse :: warehouse where
  "big_table_warehouse =
     \<lparr>describe = (\<lambda>statement. Inl (WarehouseError ''not a table'')),
      fetch = (\<lambda>statement.
         if statement = ''SELECT * FROM T LIMIT 1000'' \<or> statement = ''SELECT RATE_LIMIT FROM T''
         then Inr thousand_rows
         else Inl (WarehouseError ''unknown statement''))\<rparr>"

text \<open>
  A warehouse before and after a change of the table \<open>RPT_WOPS_TL_PERFORMANCE\<close>: the
  column \<open>TEAM_LEAD\<close> is replaced by \<open>SUPERVISOR\<close>.
\<close>

definition wops :: connection_params where
  "wops = \<lparr>database = ''ANALYTICS'', schema_name = ''WOPS''\<rparr>"

definition tickets_rows :: "describe_row list" where
  "tickets_rows =
     [\<lparr>r_name = ''TICKET_ID'', r_type = ''NUMBER(38,0)'', r_null = ''N'', r_default = None\<rparr>]"

definition old_tl_rows :: "describe_row list" where
  "old_tl_rows =
     [\<lparr>r_name = ''TEAM_LEAD'', r_type = ''VARCHAR(255)'', r_null = ''Y'', r_default = None\<rparr>]"

definition new_tl_rows :: "describe_row list" where
  "new_tl_rows =
     [\<lparr>r_name = ''SUPERVISOR'', r_type = ''VARCHAR(255)'', r_null = ''Y'', r_default = None\<rparr>]"

definition warehouse_with :: "describe_row list \<Rightarrow> warehouse" where
  "warehouse_with tl_rows =
     \<lparr>describe = (\<lambda>statement.
         if statement = ''DESCRIBE TABLE ANALYTICS.WOPS.RPT_WOPS_TICKETS'' then Inr tickets_rows
         else if statement = ''DESCRIBE TABLE ANALYTICS.WOPS.RPT_WOPS_TL_PERFORMANCE''
         then Inr tl_rows
         else Inl (WarehouseError ''not a table'')),
      fetch = (\<lambda>statement. Inl (WarehouseError ''unknown statement''))\<rparr>"

text \<open>
  The cache after both tables were described at times 1000 and 1001, and then, the hour
  over, after the first table alone was read again at time 5000 on the changed warehouse.
\<close>

definition cache_after_fill :: cache where
  "cache_after_fill =
     (case get_table_schema (warehouse_with old_tl_rows) wops 1000 1000 ''RPT_WOPS_TICKETS''
             initial_cache of
        Inr (schema, c1) \<Rightarrow>
          (case get_table_schema (warehouse_with old_tl_rows) wops 1001 1001
                  ''RPT_WOPS_TL_PERFORMANCE'' c1 of
             Inr (schema2, c2) \<Rightarrow> c2
           | Inl e \<Rightarrow> c1)
      | Inl e \<Rightarrow> initial_cache)"

definition cache_after_expiry :: cache where
  "cache_after_expiry =
     (case get_table_schema (warehouse_with new_tl_rows) wops 5000 5000 ''RPT_WOPS_TICKETS''
             cache_after_fill of
        Inr (schema, c3) \<Rightarrow> c3
      | Inl e \<Rightarrow> cache_after_fill)"

text \<open>Three schemas: one with an audit column, one with a timestamp type only, one with neither.\<close>

definition performance_schema :: table_schema where
  "performance_schema =
     [(''AHT_MINUTES'', \<lparr>ctype = ''FLOAT'', nullable = True, default = None\<rparr>),
      (''SOLVED_WEEK'', \<lparr>ctype = ''DATE'', nullable = True, default = None\<rparr>)]"

definition tickets_schema :: table_schema where
  "tickets_schema =
     [(''TICKET_ID'', \<lparr>ctype = ''NUMBER(38,0)'', nullable = False, default = None\<rparr>),
      (''OPENED'', \<lparr>ctype = ''TIMESTAMP_NTZ(9)'', nullable = True, default = None\<rparr>)]"

definition plain_schema :: table_schema where
  "plain_schema =
     [(''TICKET_ID'', \<lparr>ctype = ''NUMBER(38,0)'', nullable = False, default = None\<rparr>)]"

section \<open>Chart synthesizer\<close>

text \<open>
  A chart specification \<open>{"type", "title", "data": {"labels", "datasets"}}\<close>. A label is
  a category text, or the text Python prints for a number (\<open>str(x)\<close>), which is kept as
  the number it prints.
\<close>

datatype chart_kind = Line | Bar | Doughnut

datatype label = TextLabel string | NumberLabel rat

record dataset =
  ds_label :: string
  ds_data :: "rat list"

record chart =
  chart_type :: chart_kind
  title :: string
  labels :: "label list"
  datasets :: "dataset list"

text \<open>\<open>data.empty\<close>, \<open>data.head(n)\<close>, \<open>data[name]\<close> and \<open>select_dtypes\<close>.\<close>

definition empty :: "dataframe \<Rightarrow> bool" where
  "empty df = (df = [] \<or> len df = 0)"

fun head_column :: "nat \<Rightarrow> column \<Rightarrow> column" where
  "head_column n (ObjectCol xs) = ObjectCol (take n xs)"
| "head_column n (NumberCol xs) = NumberCol (take n xs)"

definition head :: "nat \<Rightarrow> dataframe \<Rightarrow> dataframe" where
  "head n df = map (\<lambda>(name, c). (name, head_column n c)) df"

definition get_column :: "dataframe \<Rightarrow> string \<Rightarrow> column option" where
  "get_column df name = map_of df name"

fun is_number :: "column \<Rightarrow> bool" where
  "is_number (NumberCol xs) = True"
| "is_number (ObjectCol xs) = False"

definition numeric_columns :: "dataframe \<Rightarrow> string list" where
  "numeric_columns df = map fst (filter (\<lambda>(name, c). is_number c) df)"

definition categorical_columns :: "dataframe \<Rightarrow> string list" where
  "categorical_columns df = map fst (filter (\<lambda>(name, c). \<not> is_number c) df)"

text \<open>
  Grouping. Missing keys are dropped. \<open>groupby(key)[metric].mean()\<close> lists the distinct
  keys in ascending order, each with the mean of its rows. \<open>value_counts()\<close> lists the
  distinct values by falling count. Where pandas leaves the order of equal counts or
  equal means open, the model keeps the order the rows had.
\<close>

primrec present :: "'a option list \<Rightarrow> 'a list" where
  "present [] = []"
| "present (x # xs) = (case x of None \<Rightarrow> present xs | Some v \<Rightarrow> v # present xs)"

definition mean :: "rat list \<Rightarrow> rat" where
  "mean xs = sum_list xs / of_nat (length xs)"

definition group_values :: "'k \<Rightarrow> 'k option list \<Rightarrow> rat list \<Rightarrow> rat list" where
  "group_values k keys vals = map snd (filter (\<lambda>(k', v). k' = Some k) (zip keys vals))"

definition groupby_mean :: "('k::linorder) option list \<Rightarrow> rat list \<Rightarrow> ('k \<times> rat) list" where
  "groupby_mean keys vals =
     map (\<lambda>k. (k, mean (group_values k keys vals))) (sort (remdups (present keys)))"

definition value_counts :: "'k option list \<Rightarrow> ('k \<times> nat) list" where
  "value_counts keys =
     sort_key (\<lambda>(k, n). - int n)
       (map (\<lambda>k. (k, count_list (present keys) k)) (rev (remdups (rev (present keys)))))"

text \<open>The groups of a key column of either dtype, with their labels.\<close>

fun grouped_means :: "column \<Rightarrow> rat list \<Rightarrow> (label \<times> rat) list" where
  "grouped_means (ObjectCol keys) vals =
     map (\<lambda>(k, m). (TextLabel k, m)) (groupby_mean keys vals)"
| "grouped_means (NumberCol keys) vals =
     map (\<lambda>(k, m). (NumberLabel k, m)) (groupby_mean (map Some keys) vals)"

definition chart_keywords :: "string list" where
  "chart_keywords =
     [''trend'', ''trends'', ''trending'', ''over time'', ''timeline'',
      ''compare'', ''comparison'', ''versus'', ''vs'', ''against'',
      ''top'', ''bottom'', ''highest'', ''lowest'', ''best'', ''worst'',
      ''distribution'', ''breakdown'', ''split'', ''by'',
      ''chart'', ''graph'', ''plot'', ''visualize'', ''show'',
      ''performance'', ''productivity'', ''efficiency'',
      ''weekly'', ''monthly'', ''daily'', ''quarterly'',
      ''growth'', ''decline'', ''increase'', ''decrease'']"

definition should_generate_charts :: "string \<Rightarrow> dataframe \<Rightarrow> bool" where
  "should_generate_charts user_query data =
     (if empty data \<or> len data < 2 then False
      else
        (let query_lower = lower user_query;
             has_chart_keywords = list_ex (\<lambda>keyword. contains query_lower keyword) chart_keywords;
             has_numeric_data = (0 < length (numeric_columns data));
             has_groupable_data = (2 \<le> length (df_columns data))
         in has_chart_keywords \<and> has_numeric_data \<and> has_groupable_data))"

definition date_words :: "string list" where
  "date_words = [''DATE'', ''TIME'', ''WEEK'', ''MONTH'', ''DAY'']"

definition date_columns :: "dataframe \<Rightarrow> string list" where
  "date_columns data =
     filter (\<lambda>col. list_ex (\<lambda>date_word. contains (upper col) date_word) date_words)
       (df_columns data)"

text \<open>
  One turn of the loop of \<open>_generate_trend_charts\<close>: the chart appended for a metric,
  if any. When the metric is the date column itself, \<open>reset_index()\<close> raises, the handler
  logs it, and nothing is appended.
\<close>

definition trend_chart :: "dataframe \<Rightarrow> string \<Rightarrow> string \<Rightarrow> chart option" where
  "trend_chart data date_col numeric_col =
     (if date_col = numeric_col then None
      else
        (case (get_column data date_col, get_column data numeric_col) of
           (Some keys, Some (NumberCol vals)) \<Rightarrow>
             (let trend_data = grouped_means keys vals in
              if 2 \<le> length trend_data then
                Some \<lparr>chart_type = Line, title = numeric_col @ '' Trend Over Time'',
                      labels = map fst trend_data,
                      datasets = [\<lparr>ds_label = numeric_col, ds_data = map snd trend_data\<rparr>]\<rparr>
              else None)
         | _ \<Rightarrow> None))"

definition generate_trend_charts ::
  "dataframe \<Rightarrow> string list \<Rightarrow> string list \<Rightarrow> string \<Rightarrow> chart list" where
  "generate_trend_charts data numeric_cols categorical_cols query =
     (case date_columns data of
        [] \<Rightarrow> []
      | date_col # others \<Rightarrow>
          if numeric_cols = [] then []
          else List.map_filter (trend_chart data date_col) (take 2 numeric_cols))"

text \<open>One turn of the loop of \<open>_generate_comparison_charts\<close>.\<close>

definition comparison_chart :: "dataframe \<Rightarrow> string \<Rightarrow> string \<Rightarrow> chart option" where
  "comparison_chart data cat_col numeric_col =
     (case (get_column data cat_col, get_column data numeric_col) of
        (Some (ObjectCol keys), Some (NumberCol vals)) \<Rightarrow>
          (let sorted_data = sort_key (\<lambda>(k, m). - m) (groupby_mean keys vals);
               comparison_data =
                 (if 10 < length sorted_data then take 10 sorted_data else sorted_data)
           in if 2 \<le> length comparison_data then
                Some \<lparr>chart_type = Bar, title = numeric_col @ '' by '' @ cat_col,
                      labels = map (\<lambda>(k, m). TextLabel k) comparison_data,
                      datasets = [\<lparr>ds_label = numeric_col, ds_data = map snd comparison_data\<rparr>]\<rparr>
              else None)
      | _ \<Rightarrow> None)"

definition generate_comparison_charts ::
  "dataframe \<Rightarrow> string list \<Rightarrow> string list \<Rightarrow> string \<Rightarrow> chart list" where
  "generate_comparison_charts data numeric_cols categorical_cols query =
     (case categorical_cols of
        [] \<Rightarrow> []
      | cat_col # others \<Rightarrow>
          if numeric_cols = [] then []
          else List.map_filter (comparison_chart data cat_col) (take 2 numeric_cols))"

definition generate_distribution_charts ::
  "dataframe \<Rightarrow> string list \<Rightarrow> string list \<Rightarrow> string \<Rightarrow> chart list" where
  "generate_distribution_charts data numeric_cols categorical_cols query =
     (case categorical_cols of
        [] \<Rightarrow> []
      | cat_col # others \<Rightarrow>
          if len data \<le> 20 then
            (case get_column data cat_col of
               Some (ObjectCol keys) \<Rightarrow>
                 (let distribution_data = take 8 (value_counts keys) in
                  if 2 \<le> length distribution_data then
                    [\<lparr>chart_type = Doughnut, title = ''Distribution by '' @ cat_col,
                      labels = map (\<lambda>(k, n). TextLabel k) distribution_data,
                      datasets = [\<lparr>ds_label = ''Count'',
                                   ds_data = map (\<lambda>(k, n). of_nat n) distribution_data\<rparr>]\<rparr>]
                  else [])
             | _ \<Rightarrow> [])
          else [])"

definition generate_charts_from_data :: "dataframe \<Rightarrow> string \<Rightarrow> string list \<Rightarrow> chart list" where
  "generate_charts_from_data data query insights =
     (if empty data then []
      else
        (let data_sample = (if 50 < len data then head 50 data else data);
             numeric_cols = numeric_columns data_sample;
             categorical_cols = categorical_columns data_sample
         in take 3
              (generate_trend_charts data_sample numeric_cols categorical_cols query
               @ generate_comparison_charts data_sample numeric_cols categorical_cols query
               @ generate_distribution_charts data_sample numeric_cols categorical_cols query)))"

text \<open>
  Chart synthesis as the orchestrator runs it on a non-empty result: the charts are
  generated when \<open>should_generate_charts\<close> says so.
\<close>

definition synthesize_charts :: "string \<Rightarrow> dataframe \<Rightarrow> chart list" where
  "synthesize_charts user_query data =
     (if should_generate_charts user_query data then generate_charts_from_data data user_query []
      else [])"

text \<open>The distinct values present in a text column.\<close>

definition categories :: "string option list \<Rightarrow> string set" where
  "categories keys = set (present keys)"

text \<open>Five rows with one region, and five rows with three.\<close>

definition one_region_frame :: dataframe where
  "one_region_frame =
     [(''REGION'', ObjectCol [Some ''EAST'', Some ''EAST'', Some ''EAST'', Some ''EAST'', Some ''EAST'']),
      (''COUNT'', NumberCol [4, 8, 15, 16, 23])]"

definition three_region_frame :: dataframe where
  "three_region_frame =
     [(''REGION'', ObjectCol [Some ''EAST'', Some ''WEST'', Some ''EAST'', Some ''NORTH'', Some ''WEST'']),
      (''COUNT'', NumberCol [4, 8, 15, 16, 23])]"

section \<open>Query orchestrator\<close>

text \<open>
  The candidate query parsed from the reply of the completion capability, and the answer
  \<open>process_natural_language_query\<close> returns. Both are Python dictionaries; a field is
  \<open>None\<close> when the key is absent or holds \<open>None\<close>, which \<open>dict.get\<close> does not tell
  apart. The key \<open>session_info\<close>, added last from the chat history, is left out.
\<close>

record candidate =
  sql_query :: "string option"
  explanation :: "string option"
  business_context :: "string option"
  expected_insights :: "string list option"

record answer = candidate +
  data :: "dataframe option"
  row_count :: "nat option"
  columns :: "string list option"
  insights :: "string list option"
  success :: "bool option"
  error :: "string option"
  charts :: "chart list option"














section \<open>Verification of the query safety validator\<close>

subsection \<open>Characters and trimming\<close>











subsection \<open>The regular expression finds exactly the whole-word occurrences\<close>















section \<open>Verification of the gateway\<close>

text \<open>\<open>contains\<close> is the substring relation.\<close>

lemma contains_iff: "contains s p = (\<exists>pre post. s = pre @ p @ post)"
proof (induction s)
  case Nil
  then show ?case by simp
next
  case (Cons c cs)
  have "(take (length p) (c # cs) = p) = (\<exists>post. c # cs = p @ post)"
    by (metis append_eq_conv_conj)
  moreover have "(\<exists>pre post. c # cs = pre @ p @ post) =
      ((\<exists>post. c # cs = p @ post) \<or> (\<exists>pre post. cs = pre @ p @ post))"
  proof
    assume "\<exists>pre post. c # cs = pre @ p @ post"
    then obtain pre post where e: "c # cs = pre @ p @ post"
      by blast
    show "(\<exists>post. c # cs = p @ post) \<or> (\<exists>pre post. cs = pre @ p @ post)"
    proof (cases pre)
      case Nil
      with e show ?thesis by auto
    next
      case (Cons a pre')
      with e have "cs = pre' @ p @ post" by simp
      then show ?thesis by blast
    qed
  next
    assume "(\<exists>post. c # cs = p @ post) \<or> (\<exists>pre post. cs = pre @ p @ post)"
    then show "\<exists>pre post. c # cs = pre @ p @ post"
    proof
      assume "\<exists>post. c # cs = p @ post"
      then obtain post where "c # cs = [] @ p @ post" by auto
      then show ?thesis by blast
    next
      assume "\<exists>pre post. cs = pre @ p @ post"
      then obtain pre post where "c # cs = (c # pre) @ p @ post" by auto
      then show ?thesis by blast
    qed
  qed
  ultimately show ?case
    using Cons.IH by simp
qed

lemma add_limit_keeps_statement:
  "contains (strip (upper q)) ''LIMIT'' \<Longrightarrow> add_limit q = q"
  by (simp add: add_limit_def)

text \<open>
  Claim C1. The returned frame has at most 200 rows for every statement. The code adds
  its \<open>LIMIT 200\<close> only when the text \<open>LIMIT\<close> occurs nowhere in the statement: a
  statement carrying \<open>LIMIT 1000\<close>, or naming a column \<open>RATE_LIMIT\<close> and giving no limit
  at all, reaches the warehouse as written, and all thousand rows of the table come
  back.
\<close>

theorem execute_query_exceeds_row_cap:
  "execute_query big_table_warehouse ''SELECT * FROM T LIMIT 1000'' = Inr thousand_rows
   \<and> execute_query big_table_warehouse ''SELECT RATE_LIMIT FROM T'' = Inr thousand_rows
   \<and> len thousand_rows = 1000"
proof -
  have 1: "add_limit ''SELECT * FROM T LIMIT 1000'' = ''SELECT * FROM T LIMIT 1000''"
    by code_simp
  have 2: "add_limit ''SELECT RATE_LIMIT FROM T'' = ''SELECT RATE_LIMIT FROM T''"
    by code_simp
  show ?thesis
    unfolding execute_query_def 1 2 by (simp add: big_table_warehouse_def thousand_rows_def)
qed

lemma existing_tables_unreachable: "existing_tables unreachable_warehouse cp tables = []"
  by (induction tables) (simp_all add: execute_query_def unreachable_warehouse_def)

text \<open>
  Claim C4. When every probe fails the caller gets the full fixed list, unverified. In
  the code each failing probe is handled inside the loop, so the outer handler that
  returns the fixed list is never reached: the refresh returns the empty list, caches
  it and stamps the cache, and the next call within the hour returns the cached empty
  list whatever the warehouse would answer by then.
\<close>

theorem get_available_tables_total_failure:
  "get_available_tables unreachable_warehouse cp now_check now_fill initial_cache
     = ([], \<lparr>schema_cache = [], table_list_cache = Some [], cache_timestamp = now_fill\<rparr>)
   \<and> get_available_tables wh cp (now_fill + 60) (now_fill + 61)
         \<lparr>schema_cache = [], table_list_cache = Some [], cache_timestamp = now_fill\<rparr>
     = ([], \<lparr>schema_cache = [], table_list_cache = Some [], cache_timestamp = now_fill\<rparr>)"
  by (simp add: get_available_tables_def fetch_table_list_def existing_tables_unreachable
      initial_cache_def update_cache_timestamp_def is_cache_valid_def cache_ttl_def)

text \<open>
  Claim C10. \<open>get_table_schema\<close> returns to its caller on every input, and when the
  \<open>DESCRIBE\<close> statement and the one-row sample both fail it returns the empty schema and
  leaves the cache as it was.
\<close>

theorem get_table_schema_never_raises:
  "(\<exists>r. get_table_schema wh cp now_check now_fill table_name c = Inr r)
   \<and> (\<not> (dict_get (schema_cache c) table_name \<noteq> None \<and> is_cache_valid now_check c)
        \<and> (\<exists>e. describe wh (describe_query cp table_name) = Inl e)
        \<and> (\<exists>e. fetch wh (one_row_query cp table_name) = Inl e)
      \<longrightarrow> get_table_schema wh cp now_check now_fill table_name c = Inr ([], c))"
proof
  have "\<exists>r. introspect wh cp now_fill table_name c = Inr r"
    unfolding introspect_def by (simp split: sum.splits)
  then show "\<exists>r. get_table_schema wh cp now_check now_fill table_name c = Inr r"
    unfolding get_table_schema_def by simp
  show "\<not> (dict_get (schema_cache c) table_name \<noteq> None \<and> is_cache_valid now_check c)
        \<and> (\<exists>e. describe wh (describe_query cp table_name) = Inl e)
        \<and> (\<exists>e. fetch wh (one_row_query cp table_name) = Inl e)
      \<longrightarrow> get_table_schema wh cp now_check now_fill table_name c = Inr ([], c)"
    unfolding get_table_schema_def introspect_def describe_and_cache_def sample_and_cache_def
    by auto
qed

theorem get_table_schema_never_raises_witness:
  "\<not> (dict_get (schema_cache initial_cache) ''RPT_WOPS_TICKETS'' \<noteq> None
        \<and> is_cache_valid 10 initial_cache)
   \<and> (\<exists>e. describe unreachable_warehouse (describe_query wops ''RPT_WOPS_TICKETS'') = Inl e)
   \<and> (\<exists>e. fetch unreachable_warehouse (one_row_query wops ''RPT_WOPS_TICKETS'') = Inl e)
   \<and> get_table_schema unreachable_warehouse wops 10 11 ''RPT_WOPS_TICKETS'' initial_cache
       = Inr ([], initial_cache)"
proof -
  have h1: "\<not> (dict_get (schema_cache initial_cache) ''RPT_WOPS_TICKETS'' \<noteq> None
        \<and> is_cache_valid 10 initial_cache)"
    by (simp add: initial_cache_def dict_get_def)
  have h2: "\<exists>e. describe unreachable_warehouse (describe_query wops ''RPT_WOPS_TICKETS'') = Inl e"
    by (simp add: unreachable_warehouse_def)
  have h3: "\<exists>e. fetch unreachable_warehouse (one_row_query wops ''RPT_WOPS_TICKETS'') = Inl e"
    by (simp add: unreachable_warehouse_def)
  from get_table_schema_never_raises
    [of unreachable_warehouse wops 10 11 "''RPT_WOPS_TICKETS''" initial_cache] h1 h2 h3
  show ?thesis
    by blast
qed

lemma cache_after_fill_eq:
  "cache_after_fill =
     \<lparr>schema_cache = [(''RPT_WOPS_TICKETS'', schema_of_rows tickets_rows),
                      (''RPT_WOPS_TL_PERFORMANCE'', schema_of_rows old_tl_rows)],
      table_list_cache = None, cache_timestamp = 1001\<rparr>"
  by (simp add: cache_after_fill_def get_table_schema_def introspect_def
      describe_and_cache_def initial_cache_def dict_get_def warehouse_with_def wops_def
      describe_query_def qualified_name_def update_cache_timestamp_def Let_def
      is_cache_valid_def cache_ttl_def)

lemma cache_after_expiry_eq:
  "cache_after_expiry =
     \<lparr>schema_cache = [(''RPT_WOPS_TICKETS'', schema_of_rows tickets_rows),
                      (''RPT_WOPS_TL_PERFORMANCE'', schema_of_rows old_tl_rows)],
      table_list_cache = None, cache_timestamp = 5000\<rparr>"
  by (simp add: cache_after_expiry_def cache_after_fill_eq get_table_schema_def
      introspect_def describe_and_cache_def dict_get_def warehouse_with_def wops_def
      describe_query_def qualified_name_def update_cache_timestamp_def is_cache_valid_def
      cache_ttl_def Let_def)

text \<open>
  Claim C3. Once the shared timestamp is stale, no entry cached under it is returned
  again. In the code a stale timestamp clears nothing: the read that finds it stale
  refreshes its own table and stamps the cache anew, and every other entry counts as
  fresh again. Both tables are cached by time 1001; at time 5000 the hour is over and
  the tickets table is read, which describes it again; at time 5001 the read of the
  other table returns the metadata cached at time 1001, on any warehouse, although the
  table has changed since.
\<close>

theorem stale_entry_served_after_expiry:
  "\<not> is_cache_valid 5000 cache_after_fill
   \<and> dict_get (schema_cache cache_after_fill) ''RPT_WOPS_TL_PERFORMANCE''
       = Some (schema_of_rows old_tl_rows)
   \<and> get_table_schema wh wops 5001 5001 ''RPT_WOPS_TL_PERFORMANCE'' cache_after_expiry
       = Inr (schema_of_rows old_tl_rows, cache_after_expiry)
   \<and> describe (warehouse_with new_tl_rows) (describe_query wops ''RPT_WOPS_TL_PERFORMANCE'')
       = Inr new_tl_rows
   \<and> schema_of_rows new_tl_rows \<noteq> schema_of_rows old_tl_rows"
proof -
  have "schema_of_rows new_tl_rows \<noteq> schema_of_rows old_tl_rows"
    by (simp add: schema_of_rows_def new_tl_rows_def old_tl_rows_def)
  moreover have "describe (warehouse_with new_tl_rows)
      (describe_query wops ''RPT_WOPS_TL_PERFORMANCE'') = Inr new_tl_rows"
    by (simp add: warehouse_with_def describe_query_def qualified_name_def wops_def)
  moreover have "get_table_schema wh wops 5001 5001 ''RPT_WOPS_TL_PERFORMANCE''
      cache_after_expiry = Inr (schema_of_rows old_tl_rows, cache_after_expiry)"
    by (simp add: cache_after_expiry_eq get_table_schema_def dict_get_def is_cache_valid_def
        cache_ttl_def)
  ultimately show ?thesis
    by (simp add: cache_after_fill_eq is_cache_valid_def cache_ttl_def dict_get_def)
qed


section \<open>Verification of the ordered sampler\<close>

lemma contains_nonempty: "contains s p \<Longrightarrow> p \<noteq> [] \<Longrightarrow> s \<noteq> []"
  by (cases s) auto

lemma name_matches_nonempty: "name_matches p col \<Longrightarrow> p \<noteq> [] \<Longrightarrow> col \<noteq> []"
  unfolding name_matches_def using contains_nonempty [of "upper col" p]
  by (auto simp: upper_def)

lemma first_column_with_None:
  "(first_column_with p cols = None) = (\<forall>col\<in>set cols. \<not> name_matches p col)"
  by (induction cols) (auto simp: name_matches_def)

lemma first_suchI_here: "P x \<Longrightarrow> first_such P (x # xs) x"
  unfolding first_such_def by (rule exI [of _ "[]"], rule exI [of _ xs]) simp

lemma first_suchI_later: "\<not> P y \<Longrightarrow> first_such P xs x \<Longrightarrow> first_such P (y # xs) x"
proof -
  assume n: "\<not> P y" and "first_such P xs x"
  then obtain before after where "xs = before @ x # after" "P x" "\<forall>z\<in>set before. \<not> P z"
    unfolding first_such_def by blast
  then have "y # xs = (y # before) @ x # after \<and> P x \<and> (\<forall>z\<in>set (y # before). \<not> P z)"
    using n by simp
  then show ?thesis
    unfolding first_such_def by blast
qed

lemma first_column_with_Some:
  "first_column_with p cols = Some c \<Longrightarrow> first_such (name_matches p) cols c"
proof (induction cols)
  case Nil
  then show ?case by simp
next
  case (Cons col cols)
  show ?case
  proof (cases "name_matches p col")
    case True
    with Cons.prems have "c = col"
      by (simp add: name_matches_def)
    with True show ?thesis
      by (simp add: first_suchI_here)
  next
    case False
    with Cons.prems have "first_column_with p cols = Some c"
      by (simp add: name_matches_def)
    with Cons.IH False show ?thesis
      by (simp add: first_suchI_later)
  qed
qed

lemma audit_loop_no_match:
  "\<forall>p\<in>set ps. \<forall>col\<in>set cols. \<not> name_matches p col \<Longrightarrow> \<not> truthy oc
     \<Longrightarrow> audit_loop ps cols oc = oc"
proof (induction ps)
  case Nil
  then show ?case by simp
next
  case (Cons p ps)
  then have "first_column_with p cols = None"
    by (simp add: first_column_with_None)
  with Cons show ?case
    by simp
qed

lemma audit_loop_match:
  assumes "\<exists>p\<in>set ps. \<exists>col\<in>set cols. name_matches p col" "[] \<notin> set ps" "\<not> truthy oc"
  shows "\<exists>p c. first_such (\<lambda>p. \<exists>col\<in>set cols. name_matches p col) ps p
            \<and> first_such (name_matches p) cols c \<and> c \<noteq> []
            \<and> audit_loop ps cols oc = Some c"
  using assms
proof (induction ps)
  case Nil
  then show ?case by simp
next
  case (Cons p ps)
  show ?case
  proof (cases "first_column_with p cols")
    case None
    then have no: "\<not> (\<exists>col\<in>set cols. name_matches p col)"
      by (simp add: first_column_with_None)
    with Cons.prems have "\<exists>q\<in>set ps. \<exists>col\<in>set cols. name_matches q col" "[] \<notin> set ps"
      by auto
    with Cons.IH Cons.prems(3) obtain q c
      where q: "first_such (\<lambda>p. \<exists>col\<in>set cols. name_matches p col) ps q"
        and c: "first_such (name_matches q) cols c" "c \<noteq> []"
        and l: "audit_loop ps cols oc = Some c"
      by blast
    from no q have "first_such (\<lambda>p. \<exists>col\<in>set cols. name_matches p col) (p # ps) q"
      by (intro first_suchI_later)
    moreover have "audit_loop (p # ps) cols oc = Some c"
      using None Cons.prems(3) l by simp
    ultimately show ?thesis
      using c by blast
  next
    case (Some c)
    then have c: "first_such (name_matches p) cols c"
      by (rule first_column_with_Some)
    then have m: "name_matches p c" "c \<in> set cols"
      unfolding first_such_def by auto
    moreover have "p \<noteq> []"
      using Cons.prems(2) by auto
    ultimately have ne: "c \<noteq> []"
      using name_matches_nonempty by blast
    have "first_such (\<lambda>p. \<exists>col\<in>set cols. name_matches p col) (p # ps) p"
      using m by (intro first_suchI_here) blast
    moreover have "audit_loop (p # ps) cols oc = Some c"
      using Some ne by simp
    ultimately show ?thesis
      using c ne by blast
  qed
qed

lemma first_date_column_None:
  "(first_date_column schema = None) = (\<forall>item\<in>set schema. \<not> has_date_type (snd item))"
  by (induction schema rule: first_date_column.induct) auto

lemma first_date_column_Some:
  "first_date_column schema = Some c \<Longrightarrow>
     \<exists>item. first_such (\<lambda>item. has_date_type (snd item)) schema item \<and> c = fst item"
proof (induction schema)
  case Nil
  then show ?case by simp
next
  case (Cons item schema)
  show ?case
  proof (cases "has_date_type (snd item)")
    case True
    with Cons.prems have "c = fst item"
      by (cases item) simp
    moreover have "first_such (\<lambda>item. has_date_type (snd item)) (item # schema) item"
      using True by (intro first_suchI_here)
    ultimately show ?thesis
      by blast
  next
    case False
    with Cons.prems have "first_date_column schema = Some c"
      by (cases item) simp
    with Cons.IH obtain it where "first_such (\<lambda>item. has_date_type (snd item)) schema it"
        "c = fst it"
      by blast
    with False have "first_such (\<lambda>item. has_date_type (snd item)) (item # schema) it
        \<and> c = fst it"
      by (simp add: first_suchI_later)
    then show ?thesis
      by blast
  qed
qed

lemma audit_patterns_nonempty: "[] \<notin> set audit_patterns"
  by (simp add: audit_patterns_def)

lemma solved_week_first:
  "audit_loop audit_patterns [''SOLVED_WEEK'', ''AHT_MINUTES''] None = Some ''SOLVED_WEEK''"
  by code_simp

lemma solved_week_second:
  "audit_loop audit_patterns [''AHT_MINUTES'', ''SOLVED_WEEK''] None = Some ''SOLVED_WEEK''"
  by code_simp

text \<open>
  Claim C7. The ordered sampler takes the patterns in their order of priority and, for
  the first pattern that any column name contains (in any letter case), the first such
  column of the schema. If no name contains any pattern, it takes the first column whose
  declared type contains \<open>DATE\<close>, \<open>TIMESTAMP\<close> or \<open>TIME\<close>. If there is none either,
  the statement is the plain limited sample. A schema with the columns \<open>SOLVED_WEEK\<close>
  and \<open>AHT_MINUTES\<close> is ordered by \<open>SOLVED_WEEK\<close>.
\<close>

theorem pick_order_column_priority:
  "((\<exists>p\<in>set audit_patterns. \<exists>col\<in>set (dict_keys schema). name_matches p col) \<longrightarrow>
      (\<exists>p c. first_such (\<lambda>p. \<exists>col\<in>set (dict_keys schema). name_matches p col)
                audit_patterns p
             \<and> first_such (name_matches p) (dict_keys schema) c
             \<and> pick_order_column schema = Some c
             \<and> sample_statement cp table_name limit schema
                 = ordered_query cp table_name c limit))
   \<and> (\<not> (\<exists>p\<in>set audit_patterns. \<exists>col\<in>set (dict_keys schema). name_matches p col) \<longrightarrow>
        ((\<exists>item\<in>set schema. has_date_type (snd item)) \<longrightarrow>
           (\<exists>item. first_such (\<lambda>item. has_date_type (snd item)) schema item
              \<and> pick_order_column schema = Some (fst item)
              \<and> (fst item \<noteq> [] \<longrightarrow>
                   sample_statement cp table_name limit schema
                     = ordered_query cp table_name (fst item) limit)))
        \<and> (\<not> (\<exists>item\<in>set schema. has_date_type (snd item)) \<longrightarrow>
             pick_order_column schema = None
             \<and> sample_statement cp table_name limit schema
                 = sample_query cp table_name limit))
   \<and> pick_order_column [(''SOLVED_WEEK'', a), (''AHT_MINUTES'', b)] = Some ''SOLVED_WEEK''
   \<and> pick_order_column [(''AHT_MINUTES'', b), (''SOLVED_WEEK'', a)] = Some ''SOLVED_WEEK''"
proof (intro conjI impI)
  assume "\<exists>p\<in>set audit_patterns. \<exists>col\<in>set (dict_keys schema). name_matches p col"
  then obtain p c
    where p: "first_such (\<lambda>p. \<exists>col\<in>set (dict_keys schema). name_matches p col)
                audit_patterns p"
      and c: "first_such (name_matches p) (dict_keys schema) c" "c \<noteq> []"
      and l: "audit_loop audit_patterns (dict_keys schema) None = Some c"
    using audit_loop_match [of audit_patterns "dict_keys schema" None] audit_patterns_nonempty
    by auto
  have "pick_order_column schema = Some c"
    using l c(2) by (simp add: pick_order_column_def)
  moreover from this have "sample_statement cp table_name limit schema
      = ordered_query cp table_name c limit"
    using c(2) by (simp add: sample_statement_def)
  ultimately show "\<exists>p c. first_such (\<lambda>p. \<exists>col\<in>set (dict_keys schema). name_matches p col)
                audit_patterns p
             \<and> first_such (name_matches p) (dict_keys schema) c
             \<and> pick_order_column schema = Some c
             \<and> sample_statement cp table_name limit schema
                 = ordered_query cp table_name c limit"
    using p c(1) by blast
next
  assume "\<not> (\<exists>p\<in>set audit_patterns. \<exists>col\<in>set (dict_keys schema). name_matches p col)"
  then have l: "audit_loop audit_patterns (dict_keys schema) None = None"
    by (intro audit_loop_no_match) auto
  {
    assume "\<exists>item\<in>set schema. has_date_type (snd item)"
    then obtain c where d: "first_date_column schema = Some c"
      using first_date_column_None [of schema] by auto
    then obtain item where i: "first_such (\<lambda>item. has_date_type (snd item)) schema item"
        "c = fst item"
      using first_date_column_Some by blast
    have k: "pick_order_column schema = Some (fst item)"
      using l d i(2) by (simp add: pick_order_column_def)
    then have "fst item \<noteq> [] \<longrightarrow> sample_statement cp table_name limit schema
        = ordered_query cp table_name (fst item) limit"
      by (simp add: sample_statement_def)
    with i(1) k show "\<exists>item. first_such (\<lambda>item. has_date_type (snd item)) schema item
              \<and> pick_order_column schema = Some (fst item)
              \<and> (fst item \<noteq> [] \<longrightarrow>
                   sample_statement cp table_name limit schema
                     = ordered_query cp table_name (fst item) limit)"
      by blast
  next
    assume "\<not> (\<exists>item\<in>set schema. has_date_type (snd item))"
    then have d: "first_date_column schema = None"
      by (simp add: first_date_column_None)
    show k: "pick_order_column schema = None"
      using l d by (simp add: pick_order_column_def)
    show "sample_statement cp table_name limit schema = sample_query cp table_name limit"
      using k by (simp add: sample_statement_def)
  }
next
  show "pick_order_column [(''SOLVED_WEEK'', a), (''AHT_MINUTES'', b)] = Some ''SOLVED_WEEK''"
    by (simp add: pick_order_column_def dict_keys_def solved_week_first)
next
  show "pick_order_column [(''AHT_MINUTES'', b), (''SOLVED_WEEK'', a)] = Some ''SOLVED_WEEK''"
    by (simp add: pick_order_column_def dict_keys_def solved_week_second)
qed

theorem pick_order_column_priority_witness:
  "(\<exists>p\<in>set audit_patterns. \<exists>col\<in>set (dict_keys performance_schema). name_matches p col)
   \<and> sample_statement wops ''T'' 10 performance_schema
       = ordered_query wops ''T'' ''SOLVED_WEEK'' 10
   \<and> \<not> (\<exists>p\<in>set audit_patterns. \<exists>col\<in>set (dict_keys tickets_schema). name_matches p col)
   \<and> (\<exists>item\<in>set tickets_schema. has_date_type (snd item))
   \<and> sample_statement wops ''T'' 10 tickets_schema = ordered_query wops ''T'' ''OPENED'' 10
   \<and> \<not> (\<exists>p\<in>set audit_patterns. \<exists>col\<in>set (dict_keys plain_schema). name_matches p col)
   \<and> \<not> (\<exists>item\<in>set plain_schema. has_date_type (snd item))
   \<and> sample_statement wops ''T'' 10 plain_schema = sample_query wops ''T'' 10"
proof -
  have a1: "\<exists>p\<in>set audit_patterns. \<exists>col\<in>set (dict_keys performance_schema). name_matches p col"
    by code_simp
  have a2: "pick_order_column performance_schema = Some ''SOLVED_WEEK''"
    by code_simp
  have b1: "\<not> (\<exists>p\<in>set audit_patterns. \<exists>col\<in>set (dict_keys tickets_schema). name_matches p col)"
    by code_simp
  have b2: "\<exists>item\<in>set tickets_schema. has_date_type (snd item)"
    by code_simp
  have b3: "pick_order_column tickets_schema = Some ''OPENED''"
    by code_simp
  have c1: "\<not> (\<exists>p\<in>set audit_patterns. \<exists>col\<in>set (dict_keys plain_schema). name_matches p col)"
    by code_simp
  have c2: "\<not> (\<exists>item\<in>set plain_schema. has_date_type (snd item))"
    by code_simp
  have a: "sample_statement wops ''T'' 10 performance_schema
      = ordered_query wops ''T'' ''SOLVED_WEEK'' 10"
    using pick_order_column_priority [of performance_schema wops "''T''" 10] a1 a2
    by auto
  have b: "sample_statement wops ''T'' 10 tickets_schema = ordered_query wops ''T'' ''OPENED'' 10"
    using pick_order_column_priority [of tickets_schema wops "''T''" 10] b1 b2 b3
    by auto
  have c: "sample_statement wops ''T'' 10 plain_schema = sample_query wops ''T'' 10"
    using pick_order_column_priority [of plain_schema wops "''T''" 10] c1 c2
    by auto
  from a1 a b1 b2 b c1 c2 c show ?thesis
    by blast
qed

section \<open>Verification of the chart synthesizer\<close>

lemma length_present: "length (present keys) \<le> length keys"
  by (induction keys) (auto split: option.splits)

lemma card_categories_le: "card (categories keys) \<le> length keys"
  unfolding categories_def
  using card_length [of "present keys"] length_present [of keys] by linarith

lemma length_groupby_mean: "length (groupby_mean keys vals) = card (categories keys)"
  by (simp add: groupby_mean_def categories_def length_remdups_card_conv)

lemma length_value_counts: "length (value_counts keys) = card (categories keys)"
proof -
  have "length (rev (remdups (rev (present keys)))) = card (set (rev (present keys)))"
    by (simp only: length_rev length_remdups_card_conv)
  then show ?thesis
    by (simp add: value_counts_def categories_def)
qed

lemma keys_value_counts: "set (map fst (value_counts keys)) = categories keys"
proof -
  have "map fst (map (\<lambda>k. (k, count_list (present keys) k)) ks) = ks" for ks
    by (induction ks) simp_all
  then have "set (map fst (map (\<lambda>k. (k, count_list (present keys) k))
      (rev (remdups (rev (present keys)))))) = categories keys"
    by (simp add: categories_def)
  then show ?thesis
    unfolding value_counts_def by (simp only: set_map set_sort)
qed

lemma region_keyword:
  "list_ex (\<lambda>keyword. contains (lower ''show distribution by region'') keyword) chart_keywords"
  by code_simp

lemma region_not_date:
  "\<not> list_ex (\<lambda>date_word. contains (upper ''REGION'') date_word) date_words"
  by code_simp

lemma count_not_date:
  "\<not> list_ex (\<lambda>date_word. contains (upper ''COUNT'') date_word) date_words"
  by code_simp

lemma region_count_frames:
  assumes "frame = [(''REGION'', ObjectCol regions), (''COUNT'', NumberCol counts)]
           \<or> frame = [(''COUNT'', NumberCol counts), (''REGION'', ObjectCol regions)]"
  shows "numeric_columns frame = [''COUNT'']" "categorical_columns frame = [''REGION'']"
    "date_columns frame = []" "length (df_columns frame) = 2"
    "get_column frame ''REGION'' = Some (ObjectCol regions)"
    "get_column frame ''COUNT'' = Some (NumberCol counts)"
    "len frame = (if frame = [(''REGION'', ObjectCol regions), (''COUNT'', NumberCol counts)]
                 then length regions else length counts)"
  using assms region_not_date count_not_date
  by (auto simp: numeric_columns_def categorical_columns_def date_columns_def df_columns_def
      get_column_def)

lemma should_generate_region_charts:
  assumes "frame = [(''REGION'', ObjectCol regions), (''COUNT'', NumberCol counts)]
           \<or> frame = [(''COUNT'', NumberCol counts), (''REGION'', ObjectCol regions)]"
    and "length regions = 5" "length counts = 5"
  shows "should_generate_charts ''show distribution by region'' frame"
proof -
  have "len frame = 5"
    using region_count_frames(7) [OF assms(1)] assms(2,3) by (simp split: if_splits)
  moreover have "frame \<noteq> []"
    using assms(1) by auto
  ultimately show ?thesis
    unfolding should_generate_charts_def empty_def Let_def
    using region_keyword region_count_frames(1,4) [OF assms(1)] by simp
qed

lemma generate_region_charts:
  assumes "frame = [(''REGION'', ObjectCol regions), (''COUNT'', NumberCol counts)]
           \<or> frame = [(''COUNT'', NumberCol counts), (''REGION'', ObjectCol regions)]"
    and "length regions = 5" "length counts = 5"
  shows "generate_charts_from_data frame query notes =
           take 3 (List.map_filter (comparison_chart frame ''REGION'') [''COUNT'']
                   @ generate_distribution_charts frame [''COUNT''] [''REGION''] query)"
proof -
  have l: "len frame = 5"
    using region_count_frames(7) [OF assms(1)] assms(2,3) by (simp split: if_splits)
  moreover have "frame \<noteq> []"
    using assms(1) by auto
  ultimately have "\<not> empty frame" "\<not> 50 < len frame"
    by (simp_all add: empty_def)
  then show ?thesis
    unfolding generate_charts_from_data_def Let_def
    by (simp add: region_count_frames(1,2,3) [OF assms(1)] generate_trend_charts_def
        generate_comparison_charts_def)
qed

text \<open>
  Claim C9, as amended. For a five-row result with a text column \<open>REGION\<close> and a numeric
  column \<open>COUNT\<close> and the user text \<open>show distribution by region\<close>: when \<open>REGION\<close> holds
  at least two distinct values, chart synthesis emits a bar chart of \<open>COUNT\<close> by
  \<open>REGION\<close> followed by one doughnut chart, whose labels are the distinct \<open>REGION\<close>
  values, at most five; when it holds fewer than two, no chart is emitted.
\<close>

theorem region_distribution_charts:
  "(frame = [(''REGION'', ObjectCol regions), (''COUNT'', NumberCol counts)]
      \<or> frame = [(''COUNT'', NumberCol counts), (''REGION'', ObjectCol regions)])
   \<and> length regions = 5 \<and> length counts = 5 \<longrightarrow>
     (2 \<le> card (categories regions) \<longrightarrow>
        (\<exists>bar doughnut.
            synthesize_charts ''show distribution by region'' frame = [bar, doughnut]
            \<and> chart_type bar = Bar \<and> chart_type doughnut = Doughnut
            \<and> set (labels doughnut) = TextLabel ` categories regions
            \<and> length (labels doughnut) = card (categories regions)
            \<and> length (labels doughnut) \<le> 5))
     \<and> (card (categories regions) < 2 \<longrightarrow>
          synthesize_charts ''show distribution by region'' frame = [])"
proof (intro impI, elim conjE)
  assume d: "frame = [(''REGION'', ObjectCol regions), (''COUNT'', NumberCol counts)]
      \<or> frame = [(''COUNT'', NumberCol counts), (''REGION'', ObjectCol regions)]"
    and lr: "length regions = 5" and lc: "length counts = 5"
  let ?n = "card (categories regions)"
  have n5: "?n \<le> 5"
    using card_categories_le [of regions] lr by simp
  have l: "len frame = 5"
    using region_count_frames(7) [OF d] lr lc by (simp split: if_splits)
  have s: "synthesize_charts ''show distribution by region'' frame =
      take 3 (List.map_filter (comparison_chart frame ''REGION'') [''COUNT'']
              @ generate_distribution_charts frame [''COUNT''] [''REGION'']
                  ''show distribution by region'')"
    unfolding synthesize_charts_def
    using should_generate_region_charts [OF d lr lc] generate_region_charts [OF d lr lc]
    by simp
  let ?sorted = "sort_key (\<lambda>(k, m). - m) (groupby_mean regions counts)"
  let ?dist = "value_counts regions"
  have ls: "length ?sorted = ?n"
    by (simp add: length_groupby_mean)
  have ld: "length ?dist = ?n"
    by (rule length_value_counts)
  have td: "take 8 ?dist = ?dist"
    using ld n5 by simp
  show "(2 \<le> ?n \<longrightarrow>
        (\<exists>bar doughnut.
            synthesize_charts ''show distribution by region'' frame = [bar, doughnut]
            \<and> chart_type bar = Bar \<and> chart_type doughnut = Doughnut
            \<and> set (labels doughnut) = TextLabel ` categories regions
            \<and> length (labels doughnut) = ?n
            \<and> length (labels doughnut) \<le> 5))
     \<and> (?n < 2 \<longrightarrow> synthesize_charts ''show distribution by region'' frame = [])"
  proof (intro conjI impI)
    assume two: "2 \<le> ?n"
    define bar where "bar =
      \<lparr>chart_type = Bar, title = ''COUNT'' @ '' by '' @ ''REGION'',
       labels = map (\<lambda>(k, m). TextLabel k) ?sorted,
       datasets = [\<lparr>ds_label = ''COUNT'', ds_data = map snd ?sorted\<rparr>]\<rparr>"
    define doughnut where "doughnut =
      \<lparr>chart_type = Doughnut, title = ''Distribution by '' @ ''REGION'',
       labels = map (\<lambda>(k, n). TextLabel k) ?dist,
       datasets = [\<lparr>ds_label = ''Count'', ds_data = map (\<lambda>(k, n). of_nat n) ?dist\<rparr>]\<rparr>"
    have c: "comparison_chart frame ''REGION'' ''COUNT'' = Some bar"
      unfolding comparison_chart_def Let_def bar_def
      using two n5 ls by (simp add: region_count_frames(5,6) [OF d])
    have g: "generate_distribution_charts frame [''COUNT''] [''REGION'']
        ''show distribution by region'' = [doughnut]"
      unfolding generate_distribution_charts_def Let_def doughnut_def
      using two ld l by (simp add: region_count_frames(5) [OF d] td)
    have "synthesize_charts ''show distribution by region'' frame = [bar, doughnut]"
      unfolding s g by (simp add: c)
    moreover have "set (labels doughnut) = TextLabel ` set (map fst ?dist)"
      by (simp add: doughnut_def case_prod_unfold image_image)
    then have "set (labels doughnut) = TextLabel ` categories regions"
      by (simp only: keys_value_counts)
    moreover have "length (labels doughnut) = ?n"
      using ld by (simp add: doughnut_def)
    moreover have "chart_type bar = Bar" "chart_type doughnut = Doughnut"
      by (simp_all add: bar_def doughnut_def)
    ultimately show "\<exists>bar doughnut.
            synthesize_charts ''show distribution by region'' frame = [bar, doughnut]
            \<and> chart_type bar = Bar \<and> chart_type doughnut = Doughnut
            \<and> set (labels doughnut) = TextLabel ` categories regions
            \<and> length (labels doughnut) = ?n
            \<and> length (labels doughnut) \<le> 5"
      using n5 by auto
  next
    assume few: "?n < 2"
    have c: "comparison_chart frame ''REGION'' ''COUNT'' = None"
      unfolding comparison_chart_def Let_def
      using few ls by (simp add: region_count_frames(5,6) [OF d])
    have g: "generate_distribution_charts frame [''COUNT''] [''REGION'']
        ''show distribution by region'' = []"
      unfolding generate_distribution_charts_def Let_def
      using few ld l by (simp add: region_count_frames(5) [OF d] td)
    show "synthesize_charts ''show distribution by region'' frame = []"
      unfolding s g by (simp add: c)
  qed
qed

theorem region_distribution_charts_witness:
  "2 \<le> card (categories [Some ''EAST'', Some ''WEST'', Some ''EAST'', Some ''NORTH'', Some ''WEST''])
   \<and> (\<exists>bar doughnut.
         synthesize_charts ''show distribution by region'' three_region_frame = [bar, doughnut]
         \<and> chart_type bar = Bar \<and> chart_type doughnut = Doughnut
         \<and> length (labels doughnut) = 3)
   \<and> card (categories [Some ''EAST'', Some ''EAST'', Some ''EAST'', Some ''EAST'', Some ''EAST'']) < 2
   \<and> length (synthesize_charts ''show distribution by region'' one_region_frame) = 0"
proof -
  let ?three = "[Some ''EAST'', Some ''WEST'', Some ''EAST'', Some ''NORTH'', Some ''WEST'']"
  let ?one = "[Some ''EAST'', Some ''EAST'', Some ''EAST'', Some ''EAST'', Some ''EAST'']"
  have c3: "card (categories ?three) = 3"
    by code_simp
  have c1: "card (categories ?one) = 1"
    by code_simp
  from region_distribution_charts
    [of three_region_frame ?three "[4, 8, 15, 16, 23]"] c3
  have a: "\<exists>bar doughnut.
         synthesize_charts ''show distribution by region'' three_region_frame = [bar, doughnut]
         \<and> chart_type bar = Bar \<and> chart_type doughnut = Doughnut
         \<and> length (labels doughnut) = 3"
    by (auto simp: three_region_frame_def)
  from region_distribution_charts
    [of one_region_frame ?one "[4, 8, 15, 16, 23]"] c1
  have b: "length (synthesize_charts ''show distribution by region'' one_region_frame) = 0"
    by (simp add: one_region_frame_def)
  from a b c3 c1 show ?thesis
    by simp
qed

text \<open>
  Claim C9, as stated, fails on five rows that all carry the same region: the doughnut
  generator needs two categories, and no chart is emitted at all. With three regions the
  output is two charts, the first of them a bar chart.
\<close>

theorem one_region_no_doughnut:
  "len one_region_frame = 5
   \<and> synthesize_charts ''show distribution by region'' one_region_frame = []
   \<and> length (synthesize_charts ''show distribution by region'' three_region_frame) = 2
   \<and> chart_type (hd (synthesize_charts ''show distribution by region'' three_region_frame)) = Bar"
  by code_simp

section \<open>Verification of the query orchestrator\<close>




end
